theory Spec2Isabelle
  imports Complex_Main
begin

section \<open>Exceptions\<close>

text \<open>
  Python exceptions are values.  Only the class (as far as an \<open>except\<close> clause of the
  widget or this development tells classes apart) and the text \<open>str(exc)\<close> are kept.
  \<open>OtherError\<close> stands for every other subclass of \<open>Exception\<close>.
\<close>

datatype exn_class =
  MemoryError | AssertionError | IndexError | NameError | ValueError
  | ZeroDivisionError | TypeError | AttributeError | ReError | OtherError

datatype exn = Exn exn_class string

fun exn_class_of :: "exn \<Rightarrow> exn_class" where
  "exn_class_of (Exn c m) = c"

fun str_exn :: "exn \<Rightarrow> string" where
  "str_exn (Exn c m) = m"

section \<open>The update loop of \<open>OWtSNE.__start\<close>\<close>

text \<open>
  \<open>Orange.projection.TSNE\<close> is an external library.  It is a parameter of the model: a
  function from the constructor's keyword arguments and the data to either the exception
  the construction or the fit raises, or the fit, of which the widget reads the attribute
  \<open>embedding_\<close> only.
\<close>

record tsne_args =
  n_components :: int
  perplexity_arg :: int
  n_iter :: int
  init :: string

record 'e tsnefit =
  embedding_attr :: 'e

type_synonym ('x, 'e) tsne = "tsne_args \<Rightarrow> 'x option \<Rightarrow> exn + 'e tsnefit"

text \<open>
  The generator object returned by \<open>update_loop(X, max_iter, step, embedding)\<close>: its
  arguments and locals, and whether it has finished (returned, raised or been closed).
  The locals \<open>done\<close> and \<open>iterations_done\<close> come into being at the first \<open>next()\<close>
  call with the values given here.  The generator is suspended either before its first
  statement or at the \<open>yield\<close>, and both resume at the test of the \<open>while\<close> loop.
\<close>

record ('x, 'e) frame =
  fX :: "'x option"
  fmax_iter :: int
  fstep :: int
  fembedding :: "'e option"
  fdone :: bool
  fiterations_done :: int
  closed :: bool

definition update_loop :: "'x option \<Rightarrow> int \<Rightarrow> int \<Rightarrow> 'e option \<Rightarrow> ('x, 'e) frame" where
  "update_loop X max_iter step embedding =
     \<lparr>fX = X, fmax_iter = max_iter, fstep = step, fembedding = embedding,
      fdone = False, fiterations_done = 0, closed = False\<rparr>"

text \<open>
  What \<open>next(loop)\<close> gives: a yielded pair \<open>(embedding, progress)\<close>, \<open>StopIteration\<close>, or
  an exception raised inside the generator.  \<open>progress\<close> is Python's true division of two
  integers; the quotient is kept exact, as a rational number.  The yielded embedding is the
  value of the local \<open>embedding\<close>, an array or \<open>None\<close>.
\<close>

datatype 'e gen_result = Yield "'e option" rat | StopIteration | Raised exn

text \<open>
  One \<open>next()\<close> call runs the loop body once.  \<open>self.perplexity\<close> is read from the widget
  at every step (the generator is a closure over \<open>self\<close>), so it is an argument of the step.
\<close>

definition update_loop_next ::
  "('x, 'e) tsne \<Rightarrow> int \<Rightarrow> ('x, 'e) frame \<Rightarrow> 'e gen_result \<times> ('x, 'e) frame" where
  "update_loop_next tsne perplexity g =
     (if closed g then (StopIteration, g)
      else if fdone g then (StopIteration, g\<lparr>closed := True\<rparr>)
      else
        let step_iter = min (fmax_iter g - fiterations_done g) (fstep g) in
        case tsne \<lparr>n_components = 2, perplexity_arg = perplexity,
                   n_iter = step_iter, init = ''pca''\<rparr> (fX g) of
          Inl e \<Rightarrow> (Raised e, g\<lparr>closed := True\<rparr>)
        | Inr tsnefit \<Rightarrow>
            let g1 = g\<lparr>fiterations_done := fiterations_done g + step_iter\<rparr>;
                g2 = g1\<lparr>fembedding := Some (embedding_attr tsnefit)\<rparr>;
                g3 = (if fiterations_done g2 \<ge> fmax_iter g2 then g2\<lparr>fdone := True\<rparr> else g2)
            in if fmax_iter g3 = 0
               then (Raised (Exn ZeroDivisionError ''division by zero''), g3\<lparr>closed := True\<rparr>)
               else (Yield (fembedding g3)
                       (of_int (fiterations_done g3) / of_int (fmax_iter g3)), g3))"



section \<open>The widget \<open>OWtSNE\<close>\<close>

text \<open>
  Of an \<open>Orange.data.Table\<close> the modelled methods read \<open>domain.attributes\<close> only; the
  rest of the table is carried along unread.
\<close>

record 'd table =
  domain_attributes :: "string list"
  content :: 'd

text \<open>
  \<open>Orange.projection.PCA\<close> is external as well: \<open>PCA(n_components=k)(data)\<close> raises or
  gives a fitted model, which is itself callable on a table and raises or gives the
  transformed data.
\<close>

type_synonym ('d, 'x) pca = "int \<Rightarrow> 'd table \<Rightarrow> exn + ('d table \<Rightarrow> exn + 'x)"

datatype run_state = Running | Finished | Waiting

text \<open>
  Calls into the host framework and the plot whose effect is not part of the widget's own
  attributes are recorded in a log, in the order in which they are made.
\<close>

datatype effect =
  CloseContext | OpenContext | InitAttrValues
  | ProgressBarInit | ProgressBarSet rat | ProgressBarFinished
  | GeneratorClose | UnconditionalCommit | Commit | UpdatePlot

record ('d, 'x, 'e) widget =
  data :: "'d table option"
  signal_data :: "'d table option"
  effective_matrix :: "'x option"
  embedding :: "'e option"
  max_iter :: int
  perplexity :: int
  pca_components :: int
  refresh_rate :: int
  update_loop_attr :: "('x, 'e) frame option"
  state :: run_state
  in_next_step :: bool
  timer_active :: bool
  blocking :: bool
  status_message :: string
  runbutton_text :: string
  err_not_enough_rows :: bool
  err_no_attributes :: bool
  err_out_of_memory :: bool
  err_optimization_error :: "string option"
  log :: "effect list"

text \<open>
  A method either returns or lets an exception escape; in both cases the widget is left in
  some state.
\<close>

datatype 'w outcome = Return 'w | Raise exn 'w

fun state_of :: "'w outcome \<Rightarrow> 'w" where
  "state_of (Return w) = w"
| "state_of (Raise e w) = w"

definition call :: "effect \<Rightarrow> ('d, 'x, 'e) widget \<Rightarrow> ('d, 'x, 'e) widget" where
  "call ev w = w\<lparr>log := log w @ [ev]\<rparr>"

definition RefreshRate :: "(string \<times> int) list" where
  "RefreshRate =
     [(''Every iteration'', 1), (''Every 5 steps'', 5), (''Every 10 steps'', 10),
      (''Every 25 steps'', 25), (''Every 50 steps'', 50), (''None'', -1)]"

text \<open>Python's list indexing: a negative index counts from the end.\<close>

definition py_index :: "'a list \<Rightarrow> int \<Rightarrow> exn + 'a" where
  "py_index xs i =
     (if 0 \<le> i \<and> i < int (length xs) then Inr (xs ! nat i)
      else if i < 0 \<and> - int (length xs) \<le> i then Inr (xs ! nat (int (length xs) + i))
      else Inl (Exn IndexError ''list index out of range''))"

text \<open>\<open>OWtSNE.__set_update_loop\<close>\<close>

definition set_update_loop ::
  "('x, 'e) frame option \<Rightarrow> ('d, 'x, 'e) widget \<Rightarrow> ('d, 'x, 'e) widget" where
  "set_update_loop loop w =
     (let w1 = (case update_loop_attr w of
                  Some g \<Rightarrow> call ProgressBarFinished ((call GeneratorClose w)\<lparr>update_loop_attr := None\<rparr>)
                | None \<Rightarrow> w);
          w2 = w1\<lparr>update_loop_attr := loop\<rparr>
      in case loop of
           Some g \<Rightarrow>
             (call ProgressBarInit (w2\<lparr>blocking := True\<rparr>))
               \<lparr>status_message := ''Running'', runbutton_text := ''Stop'',
                state := Running, timer_active := True\<rparr>
         | None \<Rightarrow>
             w2\<lparr>blocking := False, status_message := [], runbutton_text := ''Start'',
                state := Finished, timer_active := False\<rparr>)"

text \<open>\<open>OWtSNE._clear\<close>\<close>

definition clear :: "('d, 'x, 'e) widget \<Rightarrow> ('d, 'x, 'e) widget" where
  "clear w = (set_update_loop None w)\<lparr>state := Waiting\<rparr>"

text \<open>\<open>self.Error.clear()\<close>\<close>

definition Error_clear :: "('d, 'x, 'e) widget \<Rightarrow> ('d, 'x, 'e) widget" where
  "Error_clear w =
     w\<lparr>err_not_enough_rows := False, err_no_attributes := False,
       err_out_of_memory := False, err_optimization_error := None\<rparr>"

text \<open>\<open>OWtSNE._initialize\<close>\<close>

definition initialize ::
  "('d, 'x) pca \<Rightarrow> ('d, 'x, 'e) widget \<Rightarrow> ('d, 'x, 'e) widget outcome" where
  "initialize PCA w =
     (let w1 = call CloseContext w;
          w2 = clear w1;
          w3 = Error_clear w2;
          w4 = w3\<lparr>data := None, effective_matrix := None, embedding := None\<rparr>;
          w5 = call InitAttrValues w4
      in case signal_data w5 of
           None \<Rightarrow> Return w5
         | Some d \<Rightarrow>
             let w6 = w5\<lparr>data := Some d\<rparr> in
             if domain_attributes d \<noteq> [] then
               (case PCA (pca_components w6) d of
                  Inl e \<Rightarrow> Raise e w6
                | Inr model \<Rightarrow>
                    (case model d of
                       Inl e \<Rightarrow> Raise e w6
                     | Inr m \<Rightarrow>
                         Return (call OpenContext (call InitAttrValues
                                   (w6\<lparr>effective_matrix := Some m\<rparr>)))))
             else Return (w6\<lparr>err_no_attributes := True\<rparr>))"

text \<open>
  \<open>OWtSNE.__init__\<close>, for the values of the four stored settings.  The construction of
  the controls is left out, except that the run button is created with the text \<open>Run\<close>.
\<close>

definition init ::
  "('d, 'x) pca \<Rightarrow> int \<Rightarrow> int \<Rightarrow> int \<Rightarrow> int \<Rightarrow> ('d, 'x, 'e) widget outcome" where
  "init PCA max_iter0 perplexity0 pca_components0 refresh_rate0 =
     initialize PCA
       \<lparr>data = None, signal_data = None, effective_matrix = None, embedding = None,
        max_iter = max_iter0, perplexity = perplexity0,
        pca_components = pca_components0, refresh_rate = refresh_rate0,
        update_loop_attr = None, state = Waiting, in_next_step = False,
        timer_active = False, blocking = False, status_message = [],
        runbutton_text = ''Run'',
        err_not_enough_rows = False, err_no_attributes = False,
        err_out_of_memory = False, err_optimization_error = None,
        log = []\<rparr>"

text \<open>\<open>OWtSNE.__start\<close>\<close>

definition start_private :: "('d, 'x, 'e) widget \<Rightarrow> ('d, 'x, 'e) widget outcome" where
  "start_private w =
     (let embedding0 = embedding w in
      case py_index RefreshRate (refresh_rate w) of
        Inl e \<Rightarrow> Raise e w
      | Inr (_, step_size) \<Rightarrow>
          let step_size = - 1;
              step_size = (if step_size = - 1 then max_iter w else step_size);
              w1 = set_update_loop
                     (Some (update_loop (effective_matrix w) (max_iter w) step_size embedding0)) w
          in Return (call ProgressBarInit w1))"

text \<open>\<open>OWtSNE.start\<close>\<close>

definition start :: "('d, 'x, 'e) widget \<Rightarrow> ('d, 'x, 'e) widget outcome" where
  "start w =
     (if state w = Running then Return w
      else if state w = Finished then start_private w
      else if state w = Waiting \<and> effective_matrix w \<noteq> None then start_private w
      else Return w)"

text \<open>\<open>OWtSNE.stop\<close>\<close>

definition stop :: "('d, 'x, 'e) widget \<Rightarrow> ('d, 'x, 'e) widget" where
  "stop w = (if state w = Running then set_update_loop None w else w)"

text \<open>\<open>OWtSNE._invalidate_output\<close>\<close>

definition invalidate_output :: "('d, 'x, 'e) widget \<Rightarrow> ('d, 'x, 'e) widget" where
  "invalidate_output w = call Commit w"

text \<open>\<open>OWtSNE._toggle_run\<close>\<close>

definition toggle_run :: "('d, 'x, 'e) widget \<Rightarrow> ('d, 'x, 'e) widget outcome" where
  "toggle_run w =
     (if state w = Running then Return (invalidate_output (stop w))
      else start w)"

text \<open>
  \<open>OWtSNE.__next_step\<close>.  The generator object is changed by \<open>next()\<close> before any
  handler runs.  Advancing the generator assigns nothing in the widget, so the assertion
  \<open>self.__update_loop is loop\<close> after \<open>next()\<close> holds and is left out.
\<close>

definition next_step ::
  "('x, 'e) tsne \<Rightarrow> ('d, 'x, 'e) widget \<Rightarrow> ('d, 'x, 'e) widget outcome" where
  "next_step tsne w =
     (case update_loop_attr w of
        None \<Rightarrow> Return w
      | Some g \<Rightarrow>
          if in_next_step w then Raise (Exn AssertionError []) w
          else
            let w1 = w\<lparr>in_next_step := True\<rparr>;
                w2 = w1\<lparr>err_out_of_memory := False\<rparr>;
                w3 = w2\<lparr>err_optimization_error := None\<rparr>;
                (r, g') = update_loop_next tsne (perplexity w3) g;
                w4 = w3\<lparr>update_loop_attr := Some g'\<rparr>;
                w5 =
                  (case r of
                     StopIteration \<Rightarrow>
                       call UpdatePlot (call UnconditionalCommit (set_update_loop None w4))
                   | Raised exc \<Rightarrow>
                       if exn_class_of exc = MemoryError
                       then set_update_loop None (w4\<lparr>err_out_of_memory := True\<rparr>)
                       else set_update_loop None
                              (w4\<lparr>err_optimization_error := Some (str_exn exc)\<rparr>)
                   | Yield embedding1 progress \<Rightarrow>
                       (call UpdatePlot
                          ((call (ProgressBarSet (100 * progress)) w4)
                             \<lparr>embedding := embedding1\<rparr>))
                         \<lparr>timer_active := True\<rparr>)
            in Return (w5\<lparr>in_next_step := False\<rparr>))"


text \<open>
  The widget states that can arise.  The attributes \<open>__update_loop\<close>, \<open>__state\<close> and
  \<open>__in_next_step\<close> are private to the class and are assigned in \<open>__init__\<close>,
  \<open>_clear\<close>, \<open>__set_update_loop\<close> and \<open>__next_step\<close> only; every method that is not
  modelled (\<open>set_data\<close>, \<open>set_subset_data\<close>, \<open>commit\<close>, the plot callbacks, a change of
  a setting in the controls) is covered by the last rule, which lets all other attributes
  change in any way.
\<close>

inductive reachable ::
  "('d, 'x) pca \<Rightarrow> ('x, 'e) tsne \<Rightarrow> ('d, 'x, 'e) widget \<Rightarrow> bool"
  for PCA :: "('d, 'x) pca" and tsne :: "('x, 'e) tsne" where
  r_init: "reachable PCA tsne (state_of (init PCA m p c r))"
| r_set_update_loop: "reachable PCA tsne w \<Longrightarrow> reachable PCA tsne (set_update_loop loop w)"
| r_clear: "reachable PCA tsne w \<Longrightarrow> reachable PCA tsne (clear w)"
| r_initialize: "reachable PCA tsne w \<Longrightarrow> reachable PCA tsne (state_of (initialize PCA w))"
| r_start: "reachable PCA tsne w \<Longrightarrow> reachable PCA tsne (state_of (start w))"
| r_stop: "reachable PCA tsne w \<Longrightarrow> reachable PCA tsne (stop w)"
| r_start_private: "reachable PCA tsne w \<Longrightarrow> reachable PCA tsne (state_of (start_private w))"
| r_toggle_run: "reachable PCA tsne w \<Longrightarrow> reachable PCA tsne (state_of (toggle_run w))"
| r_next_step: "reachable PCA tsne w \<Longrightarrow> reachable PCA tsne (state_of (next_step tsne w))"
| r_other:
    "reachable PCA tsne w \<Longrightarrow> update_loop_attr w' = update_loop_attr w \<Longrightarrow> state w' = state w
       \<Longrightarrow> in_next_step w' = in_next_step w \<Longrightarrow> reachable PCA tsne w'"

section \<open>The plot \<open>OWMDSGraph\<close>\<close>

text \<open>
  Of the plot widget, the visibility of its axes and the lock of the aspect ratio are
  modelled; \<open>rest\<close> is everything else the base class \<open>OWScatterPlotGraph\<close> keeps.  The
  methods of the base class are parameters: functions that raise or give the new state of
  the graph.
\<close>

record 'p graph =
  axis_shown :: "string \<Rightarrow> bool"
  aspect_locked :: "rat option"
  rest :: 'p

definition hideAxis :: "string \<Rightarrow> 'p graph \<Rightarrow> 'p graph" where
  "hideAxis axis g = g\<lparr>axis_shown := (axis_shown g)(axis := False)\<rparr>"

definition setAspectLocked :: "bool \<Rightarrow> rat \<Rightarrow> 'p graph \<Rightarrow> 'p graph" where
  "setAspectLocked lock ratio g = g\<lparr>aspect_locked := (if lock then Some ratio else None)\<rparr>"

text \<open>\<open>OWMDSGraph.__init__\<close>\<close>

definition OWMDSGraph_init ::
  "('sw \<times> 'pa \<times> string \<times> 'vb \<Rightarrow> exn + 'p graph) \<Rightarrow> 'sw \<Rightarrow> 'pa \<Rightarrow> string \<Rightarrow> 'vb
     \<Rightarrow> exn + 'p graph" where
  "OWMDSGraph_init super_init scatter_widget parent name view_box =
     (case super_init (scatter_widget, parent, name, view_box) of
        Inl e \<Rightarrow> Inl e
      | Inr g \<Rightarrow> Inr (fold hideAxis [''left'', ''bottom''] g))"

text \<open>\<open>OWMDSGraph.update_data\<close>\<close>

definition update_data ::
  "('v \<Rightarrow> 'v \<Rightarrow> bool \<Rightarrow> 'p graph \<Rightarrow> exn + 'p graph) \<Rightarrow> 'v \<Rightarrow> 'v \<Rightarrow> bool \<Rightarrow> 'p graph
     \<Rightarrow> exn + 'p graph" where
  "update_data super_update_data attr_x attr_y reset_view g =
     (case super_update_data attr_x attr_y reset_view g of
        Inl e \<Rightarrow> Inl e
      | Inr g1 \<Rightarrow> Inr (setAspectLocked True 1 (fold hideAxis [''left'', ''bottom''] g1)))"

text \<open>
  \<open>OWMDSGraph.compute_sizes\<close>.  Floating-point numbers are a type parameter \<open>'f\<close> and
  numpy's operations on them are parameters, so that nothing is assumed about rounding,
  infinities or \<open>NaN\<close>.  An array is the list of its elements.
\<close>

record 'f numpy =
  np_add :: "'f \<Rightarrow> 'f \<Rightarrow> 'f"
  np_sub :: "'f \<Rightarrow> 'f \<Rightarrow> 'f"
  np_mul :: "'f \<Rightarrow> 'f \<Rightarrow> 'f"
  np_div :: "'f \<Rightarrow> 'f \<Rightarrow> 'f"
  np_float :: "int \<Rightarrow> 'f"
  np_positive :: "'f \<Rightarrow> bool"
  np_isnan :: "'f \<Rightarrow> bool"
  np_nanmin :: "'f list \<Rightarrow> exn + 'f"
  np_nanmax :: "'f list \<Rightarrow> exn + 'f"

text \<open>
  The value of \<open>attr_size\<close>: \<open>None\<close>, a string entry of the combo box's model, or a
  variable of the domain (given by its name).
\<close>

datatype attr = AttrNone | AttrStr string | AttrVar string

record 'f size_fields =
  attr_size :: attr
  n_points :: nat
  point_width :: int
  MinShapeSize :: int
  scaled_data :: "int \<Rightarrow> exn + 'f list"

text \<open>\<open>OWMDSGraph.get_size_index\<close>; a variable is never equal to a string.\<close>

definition get_size_index :: "('f size_fields \<Rightarrow> int) \<Rightarrow> 'f size_fields \<Rightarrow> int" where
  "get_size_index super_get_size_index g =
     (if attr_size g = AttrStr ''Stress'' then - 2 else super_get_size_index g)"

text \<open>
  The names that the module \<open>owtsne\<close> binds at its top level, by its imports, assignments,
  function and class definitions, in the order of the source.
\<close>

definition module_names :: "string list" where
  "module_names =
     [''re'', ''sys'', ''np'', ''QFormLayout'', ''QApplication'', ''QPainter'', ''Qt'',
      ''QTimer'', ''Orange'', ''Domain'', ''Table'', ''ContinuousVariable'', ''gui'',
      ''settings'', ''SettingProvider'', ''check_sql_input'', ''report'',
      ''OWScatterPlotGraph'', ''InteractiveViewBox'', ''Msg'', ''OWWidget'', ''Input'',
      ''Output'', ''create_annotated_table'', ''ANNOTATED_DATA_SIGNAL_NAME'',
      ''RE_FIND_INDEX'', ''get_indices'', ''get_unique_names'', ''MDSInteractiveViewBox'',
      ''OWMDSGraph'', ''MAX_N_PAIRS'', ''OWtSNE'', ''main'']"

text \<open>
  The lookup of a global name at run time, in a namespace \<open>G\<close>.  Python looks into the
  builtins after the module's globals; the builtins are fixed by the language and are not
  part of \<open>G\<close>.
\<close>

definition load_global :: "(string \<rightharpoonup> 'v) \<Rightarrow> string \<Rightarrow> exn + 'v" where
  "load_global G n =
     (case G n of
        None \<Rightarrow> Inl (Exn NameError (''name '' @ [CHR 0x27] @ n @ [CHR 0x27] @ '' is not defined''))
      | Some v \<Rightarrow> Inr v)"

text \<open>The local function \<open>scale\<close> of \<open>compute_sizes\<close>.\<close>

definition scale :: "'f numpy \<Rightarrow> 'f list \<Rightarrow> exn + 'f list" where
  "scale N a =
     (case np_nanmin N a of
        Inl e \<Rightarrow> Inl e
      | Inr dmin \<Rightarrow>
          (case np_nanmax N a of
             Inl e \<Rightarrow> Inl e
           | Inr dmax \<Rightarrow>
               if np_positive N (np_sub N dmax dmin)
               then Inr (map (\<lambda>x. np_div N (np_sub N x dmin) (np_sub N dmax dmin)) a)
               else Inr (map (\<lambda>x. np_float N 0) a)))"

text \<open>
  The result of \<open>compute_sizes\<close> is the state of the message
  \<open>master.Information.missing_size\<close> (\<open>None\<close> when cleared, else the argument it is shown
  with) and the returned array or the exception.  \<open>OWtSNE\<close> declares no message group
  \<open>Information\<close> of its own; whether the group it inherits from the host's \<open>OWWidget\<close>
  has a message \<open>missing_size\<close> is the parameter \<open>has_missing_size\<close>, and without it
  the first statement raises \<open>AttributeError\<close>.
\<close>

definition replace_nans :: "'f numpy \<Rightarrow> 'f size_fields \<Rightarrow> 'f list \<Rightarrow> attr option \<times> (exn + 'f list)" where
  "replace_nans N g size_data =
     (if list_ex (np_isnan N) size_data
      then (Some (attr_size g),
            Inr (map (\<lambda>x. if np_isnan N x then np_float N (MinShapeSize g - 2) else x) size_data))
      else (None, Inr size_data))"

definition compute_sizes ::
  "'f numpy \<Rightarrow> bool \<Rightarrow> (string \<rightharpoonup> ('e option \<Rightarrow> 'x option \<Rightarrow> exn + 'f list))
     \<Rightarrow> ('f size_fields \<Rightarrow> int) \<Rightarrow> 'f size_fields \<Rightarrow> attr option \<Rightarrow> 'e option \<Rightarrow> 'x option
     \<Rightarrow> attr option \<times> (exn + 'f list)" where
  "compute_sizes N has_missing_size G super_get_size_index g missing_size
     master_embedding master_effective_matrix =
     (if \<not> has_missing_size
      then (missing_size,
            Inl (Exn AttributeError
                   (''Information object has no attribute '' @ [CHR 0x27] @ ''missing_size''
                      @ [CHR 0x27])))
      else
      let size_index = get_size_index super_get_size_index g in
      if size_index = - 1 then
        replace_nans N g (replicate (n_points g) (np_float N (point_width g)))
      else if size_index = - 2 then
        (case load_global G ''stress'' of
           Inl e \<Rightarrow> (None, Inl e)
         | Inr stress \<Rightarrow>
             (case stress master_embedding master_effective_matrix of
                Inl e \<Rightarrow> (None, Inl e)
              | Inr a \<Rightarrow>
                  (case scale N a of
                     Inl e \<Rightarrow> (None, Inl e)
                   | Inr size_data \<Rightarrow>
                       replace_nans N g
                         (map (\<lambda>x. np_add N (np_float N (MinShapeSize g))
                                     (np_mul N x (np_float N (point_width g))))
                              size_data))))
      else
        (case scaled_data g size_index of
           Inl e \<Rightarrow> (None, Inl e)
         | Inr row \<Rightarrow>
             replace_nans N g
               (map (\<lambda>x. np_add N (np_float N (MinShapeSize g))
                           (np_mul N x (np_float N (point_width g))))
                    row)))"

section \<open>The helpers \<open>get_indices\<close> and \<open>get_unique_names\<close>\<close>

text \<open>
  Both helpers work through Python's \<open>re\<close> module, \<open>int()\<close> and \<open>str.format\<close>.  The
  library is modelled for the patterns that \<open>RE_FIND_INDEX\<close> gives when the name holds
  ordinary characters, \<open>.\<close>, parentheses, escaped punctuation, \<open>^\<close>, \<open>$\<close> or a
  quantifier \<open>{m,}\<close> on a single character; the result \<open>Unmodelled\<close> marks every other
  pattern, and every argument of \<open>int()\<close> that mixes digits with other characters.
  A string is the list of its characters, which are code points below 256; among those
  the decimal digits that \<open>\d\<close> and \<open>int()\<close> accept are \<open>0\<close> to \<open>9\<close>.
\<close>

datatype 'a lib = Ok 'a | Err exn | Unmodelled

fun lib_bind :: "'a lib \<Rightarrow> ('a \<Rightarrow> 'b lib) \<Rightarrow> 'b lib" where
  "lib_bind (Ok a) f = f a"
| "lib_bind (Err e) f = Err e"
| "lib_bind Unmodelled f = Unmodelled"

abbreviation backslash :: char where "backslash \<equiv> CHR 0x5C"
abbreviation newline :: char where "newline \<equiv> CHR 0x0A"

definition is_digit :: "char \<Rightarrow> bool" where
  "is_digit c \<longleftrightarrow> c \<in> set ''0123456789''"

definition is_ascii_letter :: "char \<Rightarrow> bool" where
  "is_ascii_letter c \<longleftrightarrow>
     c \<in> set ''abcdefghijklmnopqrstuvwxyzABCDEFGHIJKLMNOPQRSTUVWXYZ''"

datatype cls = CLit char | CAny | CDigit

fun cls_ok :: "cls \<Rightarrow> char \<Rightarrow> bool" where
  "cls_ok (CLit c) d = (d = c)"
| "cls_ok CAny d = (d \<noteq> newline)"
| "cls_ok CDigit d = is_digit d"

datatype item = One cls | AtLeast nat cls | Bol | Eol | Open nat | Close nat

definition digit_value :: "char \<Rightarrow> nat" where
  "digit_value c = of_char c - 48"

definition decimal :: "string \<Rightarrow> nat" where
  "decimal ds = fold (\<lambda>c a. 10 * a + digit_value c) ds 0"

definition parse_at_least :: "string \<Rightarrow> (nat \<times> nat) option" where
  "parse_at_least cs =
     (let ds = takeWhile is_digit cs in
      if ds \<noteq> [] \<and> take 2 (drop (length ds) cs) = '',}''
      then Some (decimal ds, length ds + 2) else None)"

fun parse :: "string \<Rightarrow> item list \<Rightarrow> nat list \<Rightarrow> nat \<Rightarrow> item list lib" where
  "parse [] acc stack n =
     (if stack = [] then Ok acc
      else Err (Exn ReError ''missing ), unterminated subpattern''))"
| "parse (c # cs) acc stack n =
     (if c = backslash then
        (case cs of
           [] \<Rightarrow> Err (Exn ReError ''bad escape (end of pattern)'')
         | d # ds \<Rightarrow>
             if d = CHR ''d'' then parse ds (acc @ [One CDigit]) stack n
             else if is_ascii_letter d \<or> is_digit d then Unmodelled
             else parse ds (acc @ [One (CLit d)]) stack n)
      else if c = CHR ''('' then
        (if take 1 cs = ''?'' then Unmodelled
         else parse cs (acc @ [Open (Suc n)]) (Suc n # stack) (Suc n))
      else if c = CHR '')'' then
        (case stack of
           [] \<Rightarrow> Err (Exn ReError ''unbalanced parenthesis'')
         | k # stack' \<Rightarrow> parse cs (acc @ [Close k]) stack' n)
      else if c = CHR ''^'' then parse cs (acc @ [Bol]) stack n
      else if c = CHR ''$'' then parse cs (acc @ [Eol]) stack n
      else if c = CHR ''.'' then parse cs (acc @ [One CAny]) stack n
      else if c = CHR ''{'' then
        (case parse_at_least cs of
           None \<Rightarrow> Unmodelled
         | Some (m, k) \<Rightarrow>
             (if acc = [] then Unmodelled
              else case last acc of
                     One cl \<Rightarrow> parse (drop k cs) (butlast acc @ [AtLeast m cl]) stack n
                   | _ \<Rightarrow> Unmodelled))
      else if c \<in> set ''*+?|['' then Unmodelled
      else parse cs (acc @ [One (CLit c)]) stack n)"

definition re_compile :: "string \<Rightarrow> item list lib" where
  "re_compile pattern = parse pattern [] [] 0"

fun first_some :: "'a option list \<Rightarrow> 'a option" where
  "first_some [] = None"
| "first_some (Some v # r) = Some v"
| "first_some (None # r) = first_some r"

type_synonym caps = "nat \<rightharpoonup> nat \<times> nat"

fun match_items ::
  "item list \<Rightarrow> string \<Rightarrow> nat \<Rightarrow> (nat \<rightharpoonup> nat) \<Rightarrow> caps \<Rightarrow> (nat \<times> caps) option" where
  "match_items [] x pos st caps = Some (pos, caps)"
| "match_items (One c # r) x pos st caps =
     (if pos < length x \<and> cls_ok c (x ! pos) then match_items r x (Suc pos) st caps else None)"
| "match_items (AtLeast m c # r) x pos st caps =
     first_some (map (\<lambda>k. match_items r x (pos + k) st caps)
                     (rev [m ..< Suc (length (takeWhile (cls_ok c) (drop pos x)))]))"
| "match_items (Bol # r) x pos st caps =
     (if pos = 0 then match_items r x pos st caps else None)"
| "match_items (Eol # r) x pos st caps =
     (if pos = length x \<or> (Suc pos = length x \<and> x ! pos = newline)
      then match_items r x pos st caps else None)"
| "match_items (Open n # r) x pos st caps = match_items r x pos (st(n \<mapsto> pos)) caps"
| "match_items (Close n # r) x pos st caps =
     (case st n of
        None \<Rightarrow> None
      | Some s \<Rightarrow> match_items r x pos st (caps(n \<mapsto> (s, pos))))"

function finditer_from :: "item list \<Rightarrow> string \<Rightarrow> nat \<Rightarrow> (nat \<times> nat \<times> caps) list" where
  "finditer_from items x pos =
     (if length x < pos then []
      else case match_items items x pos Map.empty Map.empty of
             None \<Rightarrow> finditer_from items x (Suc pos)
           | Some (e, caps) \<Rightarrow>
               (pos, e, caps) # finditer_from items x (if pos < e then e else Suc pos))"
  by pat_completeness auto
termination
  by (relation "measure (\<lambda>(items, x, pos). Suc (length x) - pos)") auto

declare finditer_from.simps [simp del]

definition re_finditer :: "string \<Rightarrow> string \<Rightarrow> (nat \<times> nat \<times> caps) list lib" where
  "re_finditer pattern x =
     lib_bind (re_compile pattern) (\<lambda>items. Ok (finditer_from items x 0))"

definition group :: "string \<Rightarrow> (nat \<times> nat \<times> caps) \<Rightarrow> nat \<Rightarrow> string option" where
  "group x a n =
     (case snd (snd a) n of
        None \<Rightarrow> None
      | Some (s, e) \<Rightarrow> Some (take (e - s) (drop s x)))"

definition py_int :: "string option \<Rightarrow> int lib" where
  "py_int v =
     (case v of
        None \<Rightarrow> Err (Exn TypeError ''int() argument must be a string'')
      | Some s \<Rightarrow>
          if s \<noteq> [] \<and> list_all is_digit s then Ok (int (decimal s))
          else if list_all (\<lambda>c. \<not> is_digit c) s
          then Err (Exn ValueError ''invalid literal for int() with base 10'')
          else Unmodelled)"

definition RE_FIND_INDEX_format :: "string \<Rightarrow> string" where
  "RE_FIND_INDEX_format name =
     ''(^'' @ name @ '' '' @ [backslash] @ ''()('' @ [backslash] @ ''d{1,})(''
       @ [backslash] @ '')$)''"

fun lib_map :: "('a \<Rightarrow> 'b lib) \<Rightarrow> 'a list \<Rightarrow> 'b list lib" where
  "lib_map f [] = Ok []"
| "lib_map f (x # xs) = lib_bind (f x) (\<lambda>y. lib_bind (lib_map f xs) (\<lambda>ys. Ok (y # ys)))"

definition get_indices :: "string list \<Rightarrow> string \<Rightarrow> int list lib" where
  "get_indices names name =
     lib_bind
       (lib_map (\<lambda>x. lib_bind (re_finditer (RE_FIND_INDEX_format name) x)
                        (lib_map (\<lambda>a. py_int (group x a 2))))
                names)
       (\<lambda>iss. Ok (concat iss))"

fun py_max :: "int list \<Rightarrow> int \<Rightarrow> int" where
  "py_max [] dflt = dflt"
| "py_max (x # xs) dflt = fold max xs x"

function str_nat :: "nat \<Rightarrow> string" where
  "str_nat n = (if n < 10 then [char_of (48 + n)] else str_nat (n div 10) @ [char_of (48 + n mod 10)])"
  by pat_completeness auto
termination
  by (relation "measure id") auto

declare str_nat.simps [simp del]

definition str_int :: "int \<Rightarrow> string" where
  "str_int i = (if i < 0 then CHR ''-'' # str_nat (nat (- i)) else str_nat (nat i))"

definition get_unique_names :: "string list \<Rightarrow> string list \<Rightarrow> string list lib" where
  "get_unique_names names proposed =
     (if length (filter (\<lambda>name. name \<in> set names) proposed) \<noteq> 0 then
        lib_bind (lib_map (\<lambda>name. lib_bind (get_indices names name) (\<lambda>indices. Ok (py_max indices 1))) proposed)
          (\<lambda>ms. let max_index = py_max ms 1 in
                 Ok (map (\<lambda>name. name @ '' ('' @ str_int (max_index + 1) @ '')'') proposed))
      else Ok proposed)"


section \<open>Auxiliary notions for the proofs\<close>



text \<open>
  Names that hold none of the characters that are special in a regular expression, the
  index that an existing name \<open>x\<close> gives for a name (\<open>x\<close> is the name, a space, an opening
  parenthesis, decimal digits, a closing parenthesis and at most a final newline), and the
  compiled form of \<open>RE_FIND_INDEX\<close> for such a name.
\<close>

definition regex_special :: "char \<Rightarrow> bool" where
  "regex_special c \<longleftrightarrow> c \<in> set (backslash # ''()^$.{*+?|['')"

definition plain :: "string \<Rightarrow> bool" where
  "plain name = list_all (\<lambda>c. \<not> regex_special c) name"

definition index_in :: "string \<Rightarrow> string \<Rightarrow> nat option" where
  "index_in name x =
     (let p = name @ '' ('';
          q = length p;
          ds = takeWhile is_digit (drop q x);
          e = q + length ds
      in if take q x = p \<and> ds \<noteq> [] \<and> e < length x \<and> x ! e = CHR '')''
            \<and> (Suc e = length x \<or> (Suc (Suc e) = length x \<and> x ! Suc e = newline))
         then Some (decimal ds) else None)"

definition indices_of :: "string list \<Rightarrow> string \<Rightarrow> int list" where
  "indices_of names name = map int (List.map_filter (index_in name) names)"

definition template_items :: "string \<Rightarrow> item list" where
  "template_items name =
     [Open 1, Bol] @ map (\<lambda>c. One (CLit c)) (name @ '' ('')
       @ [Close 1, Open 2, AtLeast 1 CDigit, Close 2, Open 3, One (CLit (CHR '')'')), Eol, Close 3]"

definition closing :: "string \<Rightarrow> nat \<Rightarrow> bool" where
  "closing x e \<longleftrightarrow>
     e < length x \<and> x ! e = CHR '')''
     \<and> (Suc e = length x \<or> (Suc (Suc e) = length x \<and> x ! Suc e = newline))"

text \<open>The invariant of the three private attributes.\<close>

definition loop_inv :: "('d, 'x, 'e) widget \<Rightarrow> bool" where
  "loop_inv w \<longleftrightarrow> (update_loop_attr w \<noteq> None \<longleftrightarrow> state w = Running) \<and> \<not> in_next_step w"


section \<open>Example values\<close>

definition tsne_example :: "(unit, int) tsne" where
  "tsne_example a X = Inr \<lparr>embedding_attr = n_iter a\<rparr>"


definition pca_example :: "(unit, unit) pca" where
  "pca_example k d = Inr (\<lambda>d'. Inr ())"

definition widget_example :: "(unit, unit, int) widget" where
  "widget_example = state_of (init pca_example 1000 30 10 5)"

definition table_example :: "unit table" where
  "table_example = \<lparr>domain_attributes = [''gene''], content = ()\<rparr>"

definition graph_example :: "unit graph" where
  "graph_example = \<lparr>axis_shown = (\<lambda>a. True), aspect_locked = None, rest = ()\<rparr>"

section \<open>The update loop: termination and progress\<close>












section \<open>The invariant of the widget\<close>

lemma set_update_loop_fields:
  "update_loop_attr (set_update_loop loop w) = loop"
  "state (set_update_loop loop w) = (if loop = None then Finished else Running)"
  "in_next_step (set_update_loop loop w) = in_next_step w"
  "blocking (set_update_loop loop w) = (loop \<noteq> None)"
  "runbutton_text (set_update_loop loop w) = (if loop = None then ''Start'' else ''Stop'')"
  by (auto simp: set_update_loop_def call_def Let_def split: option.splits)

lemma set_update_loop_inv: "\<not> in_next_step w \<Longrightarrow> loop_inv (set_update_loop loop w)"
  by (simp add: loop_inv_def set_update_loop_fields)

lemma clear_inv: "\<not> in_next_step w \<Longrightarrow> loop_inv (clear w)"
  by (simp add: loop_inv_def clear_def set_update_loop_fields)

lemma initialize_inv: "\<not> in_next_step w \<Longrightarrow> loop_inv (state_of (initialize PCA w))"
  by (simp add: loop_inv_def initialize_def clear_def Error_clear_def call_def Let_def
      set_update_loop_fields split: option.splits sum.splits)

lemma start_private_inv: "\<not> in_next_step w \<Longrightarrow> loop_inv w \<Longrightarrow> loop_inv (state_of (start_private w))"
  by (simp add: loop_inv_def start_private_def call_def Let_def
      set_update_loop_fields split: option.splits sum.splits prod.splits)

lemma start_inv: "loop_inv w \<Longrightarrow> loop_inv (state_of (start w))"
  using start_private_inv[of w] by (simp add: start_def loop_inv_def)

lemma stop_inv: "loop_inv w \<Longrightarrow> loop_inv (stop w)"
  using set_update_loop_inv[of w None] by (simp add: stop_def loop_inv_def)

lemma toggle_run_inv: "loop_inv w \<Longrightarrow> loop_inv (state_of (toggle_run w))"
  using start_inv[of w] stop_inv[of w]
  by (simp add: toggle_run_def invalidate_output_def call_def loop_inv_def)

lemma next_step_inv: "loop_inv w \<Longrightarrow> loop_inv (state_of (next_step tsne w))"
  by (auto simp: next_step_def loop_inv_def call_def Let_def set_update_loop_fields
      split: option.splits prod.splits gen_result.splits)

lemma init_inv: "loop_inv (state_of (init PCA m p c r))"
  unfolding init_def by (rule initialize_inv) simp

lemma reachable_inv: "reachable PCA tsne w \<Longrightarrow> loop_inv w"
proof (induction rule: reachable.induct)
  case (r_init m p c r) show ?case by (rule init_inv)
next
  case (r_set_update_loop w loop)
  then have "\<not> in_next_step w" by (simp add: loop_inv_def)
  then show ?case by (rule set_update_loop_inv)
next
  case (r_clear w)
  then have "\<not> in_next_step w" by (simp add: loop_inv_def)
  then show ?case by (rule clear_inv)
next
  case (r_initialize w)
  then have "\<not> in_next_step w" by (simp add: loop_inv_def)
  then show ?case by (rule initialize_inv)
next
  case (r_start w)
  from r_start.IH show ?case by (rule start_inv)
next
  case (r_stop w)
  from r_stop.IH show ?case by (rule stop_inv)
next
  case (r_start_private w)
  then have "\<not> in_next_step w" "loop_inv w" by (simp_all add: loop_inv_def)
  then show ?case by (rule start_private_inv)
next
  case (r_toggle_run w)
  from r_toggle_run.IH show ?case by (rule toggle_run_inv)
next
  case (r_next_step w)
  from r_next_step.IH show ?case by (rule next_step_inv)
next
  case (r_other w w') then show ?case by (simp add: loop_inv_def)
qed

lemma init_eq:
  "init PCA m p c r =
     Return \<lparr>data = None, signal_data = None, effective_matrix = None, embedding = None,
        max_iter = m, perplexity = p, pca_components = c, refresh_rate = r,
        update_loop_attr = None, state = Waiting, in_next_step = False,
        timer_active = False, blocking = False, status_message = [],
        runbutton_text = ''Start'',
        err_not_enough_rows = False, err_no_attributes = False,
        err_out_of_memory = False, err_optimization_error = None,
        log = [CloseContext, InitAttrValues]\<rparr>"
  by (simp add: init_def initialize_def clear_def set_update_loop_def Error_clear_def
      call_def Let_def)

lemma widget_example_eq:
  "widget_example =
     \<lparr>data = None, signal_data = None, effective_matrix = None, embedding = None,
        max_iter = 1000, perplexity = 30, pca_components = 10, refresh_rate = 5,
        update_loop_attr = None, state = Waiting, in_next_step = False,
        timer_active = False, blocking = False, status_message = [],
        runbutton_text = ''Start'',
        err_not_enough_rows = False, err_no_attributes = False,
        err_out_of_memory = False, err_optimization_error = None,
        log = [CloseContext, InitAttrValues]\<rparr>"
  by (simp add: widget_example_def init_eq)

lemma reachable_widget_example: "reachable PCA tsne widget_example"
  unfolding widget_example_def
  using r_init[of PCA tsne 1000 30 10 5] by (simp add: init_eq)

section \<open>The helpers on names without special characters\<close>

lemma parse_plain:
  "plain name \<Longrightarrow> parse (name @ sfx) acc st n = parse sfx (acc @ map (\<lambda>c. One (CLit c)) name) st n"
proof (induction name arbitrary: acc)
  case Nil then show ?case by simp
next
  case (Cons c name)
  from Cons.prems have c: "\<not> regex_special c" and p: "plain name" by (simp_all add: plain_def)
  from c have "parse ((c # name) @ sfx) acc st n = parse (name @ sfx) (acc @ [One (CLit c)]) st n"
    by (simp add: regex_special_def)
  with Cons.IH[OF p] show ?case by simp
qed

lemma parse_at_least_template:
  "parse_at_least (''1,})('' @ [backslash] @ '')$)'') = Some (1, 3)"
  by code_simp

lemma re_compile_plain:
  assumes "plain name"
  shows "re_compile (RE_FIND_INDEX_format name) = Ok (template_items name)"
proof -
  let ?suffix = "'' '' @ [backslash] @ ''()('' @ [backslash] @ ''d{1,})('' @ [backslash] @ '')$)''"
  have "re_compile (RE_FIND_INDEX_format name) = parse (name @ ?suffix) [Open 1, Bol] [1] 1"
    by (simp add: re_compile_def RE_FIND_INDEX_format_def)
  also have "\<dots> = parse ?suffix ([Open 1, Bol] @ map (\<lambda>c. One (CLit c)) name) [1] 1"
    using parse_plain[OF assms] by simp
  also have "\<dots> = Ok (template_items name)"
    using parse_at_least_template
    by (simp add: template_items_def is_ascii_letter_def is_digit_def butlast_append numeral_2_eq_2 numeral_3_eq_3)
  finally show ?thesis .
qed

lemma take_drop_Cons:
  "take (Suc n) (drop pos x) = c # p \<longleftrightarrow> pos < length x \<and> x ! pos = c \<and> take n (drop (Suc pos) x) = p"
proof (cases "pos < length x")
  case True
  then have "drop pos x = x ! pos # drop (Suc pos) x" by (simp add: Cons_nth_drop_Suc)
  then show ?thesis using True by simp
next
  case False
  then show ?thesis by simp
qed

lemma match_literals:
  "match_items (map (\<lambda>c. One (CLit c)) p @ r) x pos st caps =
     (if take (length p) (drop pos x) = p then match_items r x (pos + length p) st caps else None)"
proof (induction p arbitrary: pos)
  case Nil then show ?case by simp
next
  case (Cons c p)
  show ?case using Cons.IH[of "Suc pos"] by (auto simp: take_drop_Cons)
qed

lemma first_some_all_None: "(\<forall>y \<in> set ys. y = None) \<Longrightarrow> first_some ys = None"
  by (induction ys rule: first_some.induct) auto

lemma first_some_greedy:
  assumes "\<forall>k. m \<le> k \<and> k < n \<longrightarrow> f k = None"
  shows "first_some (map f (rev [m ..< Suc n])) = (if m \<le> n then f n else None)"
proof (cases "m \<le> n")
  case True
  then have r: "rev [m ..< Suc n] = n # rev [m ..< n]" by simp
  have rest: "first_some (map f (rev [m ..< n])) = None"
    using assms by (intro first_some_all_None) auto
  show ?thesis
  proof (cases "f n")
    case None
    then show ?thesis using True r rest by simp
  next
    case (Some v)
    then show ?thesis using True r by simp
  qed
next
  case False
  then show ?thesis by simp
qed

lemma match_tail:
  assumes "st 2 = Some q"
  shows "match_items [Close 2, Open 3, One (CLit (CHR '')'')), Eol, Close 3] x e st caps =
     (if closing x e then Some (Suc e, caps(2 \<mapsto> (q, e), 3 \<mapsto> (e, Suc e))) else None)"
  using assms by (auto simp: closing_def)

lemma digit_run_not_closing:
  assumes "k < length (takeWhile is_digit (drop q x))"
  shows "\<not> closing x (q + k)"
proof -
  let ?ds = "takeWhile is_digit (drop q x)"
  have "?ds ! k \<in> set ?ds" using assms by simp
  then have d: "is_digit (?ds ! k)" by (meson set_takeWhileD)
  have "?ds ! k = drop q x ! k" using assms by (rule takeWhile_nth)
  moreover have "q + k < length x"
    using assms length_takeWhile_le[of is_digit "drop q x"] by simp
  ultimately have "?ds ! k = x ! (q + k)" by simp
  with d have "is_digit (x ! (q + k))" by simp
  then have "x ! (q + k) \<noteq> CHR '')''" by (auto simp: is_digit_def)
  then show ?thesis by (simp add: closing_def)
qed

lemma match_template:
  "match_items (template_items name) x 0 Map.empty Map.empty =
     (let q = length name + 2;
          e = q + length (takeWhile is_digit (drop q x))
      in if take q x = name @ '' ('' \<and> q < e \<and> closing x e
         then Some (Suc e, [1 \<mapsto> (0, q), 2 \<mapsto> (q, e), 3 \<mapsto> (e, Suc e)])
         else None)"
proof -
  define q where "q = length name + 2"
  define n where "n = length (takeWhile is_digit (drop q x))"
  define st :: "nat \<rightharpoonup> nat" where "st = [1 \<mapsto> 0, 2 \<mapsto> q]"
  define caps :: caps where "caps = [1 \<mapsto> (0, q)]"
  define R where "R = [Close 2, Open 3, One (CLit (CHR '')'')), Eol, Close 3]"
  define f where "f = (\<lambda>k. match_items R x (q + k) st caps)"
  have st2: "st 2 = Some q" by (simp add: st_def)
  have f: "f k = (if closing x (q + k)
                   then Some (Suc (q + k), caps(2 \<mapsto> (q, q + k), 3 \<mapsto> (q + k, Suc (q + k))))
                   else None)" for k
    unfolding f_def R_def using match_tail[of st q x "q + k" caps] st2 by blast
  have none: "\<forall>k. 1 \<le> k \<and> k < n \<longrightarrow> f k = None"
  proof (intro allI impI)
    fix k assume "1 \<le> k \<and> k < n"
    then have "\<not> closing x (q + k)" using digit_run_not_closing[of k q x] by (simp add: n_def)
    then show "f k = None" by (simp only: f if_False)
  qed
  have tw: "takeWhile (cls_ok CDigit) (drop q x) = takeWhile is_digit (drop q x)"
    by (rule takeWhile_cong) simp_all
  have "match_items (AtLeast 1 CDigit # R) x q st caps
          = first_some (map (\<lambda>k. match_items R x (q + k) st caps)
                          (rev [1 ..< Suc (length (takeWhile (cls_ok CDigit) (drop q x)))]))"
    by (rule match_items.simps(3))
  also have "\<dots> = first_some (map f (rev [1 ..< Suc n]))"
    by (simp only: tw n_def f_def)
  also have "\<dots> = (if 1 \<le> n then f n else None)"
    by (rule first_some_greedy[OF none])
  finally have rep: "match_items (AtLeast 1 CDigit # R) x q st caps = (if 1 \<le> n then f n else None)" .
  have open2: "match_items (Close 1 # Open 2 # AtLeast 1 CDigit # R) x q [1 \<mapsto> 0] Map.empty
                 = match_items (AtLeast 1 CDigit # R) x q st caps"
    by (simp add: st_def caps_def del: match_items.simps(3))
  have lits: "match_items (map (\<lambda>c. One (CLit c)) (name @ '' ('')
                  @ (Close 1 # Open 2 # AtLeast 1 CDigit # R)) x 0 [1 \<mapsto> 0] Map.empty
        = (if take q x = name @ '' (''
           then match_items (Close 1 # Open 2 # AtLeast 1 CDigit # R) x q [1 \<mapsto> 0] Map.empty
           else None)"
    using match_literals[of "name @ '' (''" "Close 1 # Open 2 # AtLeast 1 CDigit # R" x 0
        "[1 \<mapsto> 0]" Map.empty]
    by (simp add: q_def del: match_items.simps)
  have start: "match_items (template_items name) x 0 Map.empty Map.empty
        = match_items (map (\<lambda>c. One (CLit c)) (name @ '' ('')
                  @ (Close 1 # Open 2 # AtLeast 1 CDigit # R)) x 0 [1 \<mapsto> 0] Map.empty"
    by (simp add: template_items_def R_def del: match_items.simps(2,3,5,7))
  have "match_items (template_items name) x 0 Map.empty Map.empty
        = (if take q x = name @ '' ('' \<and> 1 \<le> n \<and> closing x (q + n)
           then Some (Suc (q + n), caps(2 \<mapsto> (q, q + n), 3 \<mapsto> (q + n, Suc (q + n))))
           else None)"
    unfolding start lits open2 rep f by simp
  then show ?thesis
    unfolding Let_def q_def[symmetric] n_def[symmetric] caps_def by (auto simp: fun_upd_twist)
qed

lemma match_template_later:
  "0 < pos \<Longrightarrow> match_items (template_items name) x pos Map.empty Map.empty = None"
  by (simp add: template_items_def)

lemma finditer_from_beyond: "length x < pos \<Longrightarrow> finditer_from items x pos = []"
  by (subst finditer_from.simps) simp

lemma finditer_from_None:
  "\<not> length x < pos \<Longrightarrow> match_items items x pos Map.empty Map.empty = None
     \<Longrightarrow> finditer_from items x pos = finditer_from items x (Suc pos)"
  by (subst finditer_from.simps) simp

lemma finditer_from_Some:
  "\<not> length x < pos \<Longrightarrow> match_items items x pos Map.empty Map.empty = Some (e, caps)
     \<Longrightarrow> finditer_from items x pos
         = (pos, e, caps) # finditer_from items x (if pos < e then e else Suc pos)"
  by (subst finditer_from.simps) simp

lemma finditer_from_later:
  "0 < pos \<Longrightarrow> finditer_from (template_items name) x pos = []"
proof (induction "Suc (length x) - pos" arbitrary: pos)
  case 0
  then have "length x < pos" by simp
  then show ?case by (rule finditer_from_beyond)
next
  case (Suc k)
  show ?case
  proof (cases "length x < pos")
    case True
    then show ?thesis by (rule finditer_from_beyond)
  next
    case False
    with Suc.hyps(2) have "k = Suc (length x) - Suc pos" by simp
    from Suc.hyps(1)[OF this] have "finditer_from (template_items name) x (Suc pos) = []" by simp
    with finditer_from_None[OF False match_template_later[OF Suc.prems]] show ?thesis by simp
  qed
qed

lemma finditer_template:
  "finditer_from (template_items name) x 0 =
     (case match_items (template_items name) x 0 Map.empty Map.empty of
        None \<Rightarrow> []
      | Some (e, caps) \<Rightarrow> [(0, e, caps)])"
proof (cases "match_items (template_items name) x 0 Map.empty Map.empty")
  case None
  have "finditer_from (template_items name) x 0 = finditer_from (template_items name) x (Suc 0)"
    by (rule finditer_from_None[OF _ None]) simp
  then show ?thesis
    using finditer_from_later[of "Suc 0" name x] None by simp
next
  case (Some r)
  obtain e caps where r: "r = (e, caps)" by (cases r)
  with Some have e: "0 < e"
    by (auto simp: match_template Let_def split: if_splits)
  have "finditer_from (template_items name) x 0
          = (0, e, caps) # finditer_from (template_items name) x (if 0 < e then e else Suc 0)"
    by (rule finditer_from_Some) (use Some r in simp_all)
  with e Some r show ?thesis
    using finditer_from_later[of e name x] by simp
qed

lemma indices_one_name:
  assumes "plain name"
  shows "lib_bind (re_finditer (RE_FIND_INDEX_format name) x)
           (lib_map (\<lambda>a. py_int (group x a 2)))
         = Ok (case index_in name x of None \<Rightarrow> [] | Some k \<Rightarrow> [int k])"
proof -
  define q where "q = length name + 2"
  define ds where "ds = takeWhile is_digit (drop q x)"
  define e where "e = q + length ds"
  have fi: "re_finditer (RE_FIND_INDEX_format name) x = Ok (finditer_from (template_items name) x 0)"
    by (simp add: re_finditer_def re_compile_plain[OF assms])
  have m: "match_items (template_items name) x 0 Map.empty Map.empty =
     (if take q x = name @ '' ('' \<and> q < e \<and> closing x e
      then Some (Suc e, [1 \<mapsto> (0, q), 2 \<mapsto> (q, e), 3 \<mapsto> (e, Suc e)])
      else None)"
    by (simp add: match_template Let_def q_def e_def ds_def)
  have ix: "index_in name x =
     (if take q x = name @ '' ('' \<and> q < e \<and> closing x e then Some (decimal ds) else None)"
    by (auto simp: index_in_def Let_def q_def e_def ds_def closing_def)
  show ?thesis
  proof (cases "take q x = name @ '' ('' \<and> q < e \<and> closing x e")
    case False
    from False have m0: "match_items (template_items name) x 0 Map.empty Map.empty = None"
      unfolding m by (rule if_not_P)
    from False have i0: "index_in name x = None"
      unfolding ix by (rule if_not_P)
    have "finditer_from (template_items name) x 0 = []"
      by (simp add: finditer_template m0)
    then show ?thesis by (simp add: fi i0)
  next
    case True
    from True have m1: "match_items (template_items name) x 0 Map.empty Map.empty
        = Some (Suc e, [1 \<mapsto> (0, q), 2 \<mapsto> (q, e), 3 \<mapsto> (e, Suc e)])"
      unfolding m by (rule if_P)
    from True have i1: "index_in name x = Some (decimal ds)"
      unfolding ix by (rule if_P)
    from True have ne: "ds \<noteq> []" by (simp add: e_def)
    have dg: "list_all is_digit ds"
      unfolding ds_def list_all_iff by (meson set_takeWhileD)
    have tk: "take (e - q) (drop q x) = ds"
      unfolding e_def ds_def by (simp add: takeWhile_eq_take[symmetric])
    have pi: "py_int (Some ds) = Ok (int (decimal ds))"
      using ne dg by (simp add: py_int_def)
    have "finditer_from (template_items name) x 0
            = [(0, Suc e, [1 \<mapsto> (0, q), 2 \<mapsto> (q, e), 3 \<mapsto> (e, Suc e)])]"
      by (simp add: finditer_template m1)
    then show ?thesis by (simp add: fi i1 group_def tk pi)
  qed
qed

lemma lib_map_Ok: "(\<And>x. x \<in> set xs \<Longrightarrow> f x = Ok (g x)) \<Longrightarrow> lib_map f xs = Ok (map g xs)"
  by (induction xs) simp_all

lemma concat_index_in:
  "concat (map (\<lambda>x. case index_in name x of None \<Rightarrow> [] | Some k \<Rightarrow> [int k]) names)
     = indices_of names name"
  by (induction names) (simp_all add: indices_of_def map_filter_simps split: option.splits)

lemma get_indices_plain:
  assumes "plain name"
  shows "get_indices names name = Ok (indices_of names name)"
proof -
  have "lib_map (\<lambda>x. lib_bind (re_finditer (RE_FIND_INDEX_format name) x)
                        (lib_map (\<lambda>a. py_int (group x a 2)))) names
        = Ok (map (\<lambda>x. case index_in name x of None \<Rightarrow> [] | Some k \<Rightarrow> [int k]) names)"
    by (rule lib_map_Ok) (rule indices_one_name[OF assms])
  then show ?thesis by (simp add: get_indices_def concat_index_in)
qed

lemma get_unique_names_plain:
  assumes "list_all plain proposed"
  shows "get_unique_names names proposed =
     Ok (if list_ex (\<lambda>name. name \<in> set names) proposed
         then map (\<lambda>name. name @ '' (''
                     @ str_int (py_max (map (\<lambda>p. py_max (indices_of names p) 1) proposed) 1 + 1)
                     @ '')'') proposed
         else proposed)"
proof -
  have "lib_map (\<lambda>name. lib_bind (get_indices names name) (\<lambda>indices. Ok (py_max indices 1))) proposed
        = Ok (map (\<lambda>p. py_max (indices_of names p) 1) proposed)"
    using assms by (intro lib_map_Ok) (simp add: get_indices_plain list_all_iff)
  moreover have "(filter (\<lambda>name. name \<in> set names) proposed \<noteq> [])
                = list_ex (\<lambda>name. name \<in> set names) proposed"
    by (auto simp: filter_empty_conv list_ex_iff)
  ultimately show ?thesis by (simp add: get_unique_names_def Let_def)
qed

lemma index_in_intro:
  assumes "ds \<noteq> []" "list_all is_digit ds" "t = [] \<or> t = [newline]"
  shows "index_in name (name @ '' ('' @ ds @ '')'' @ t) = Some (decimal ds)"
proof -
  let ?x = "name @ '' ('' @ ds @ '')'' @ t"
  let ?q = "length (name @ '' ('')"
  have nd: "\<not> is_digit (CHR '')'')" by (simp add: is_digit_def)
  have dr: "drop ?q ?x = ds @ '')'' @ t" by simp
  have tw: "takeWhile is_digit (drop ?q ?x) = ds"
    unfolding dr using assms(2) nd by (simp add: list_all_iff takeWhile_append2)
  have tk: "take ?q ?x = name @ '' (''" by simp
  have nth: "?x ! (?q + length ds) = CHR '')''"
    by (simp add: nth_append)
  have len: "length ?x = Suc (?q + length ds) + length t" by simp
  have nl: "t = [newline] \<Longrightarrow> ?x ! Suc (?q + length ds) = newline"
    by (simp add: nth_append)
  have e: "?q + length ds < length ?x" by simp
  have c: "Suc (?q + length ds) = length ?x
         \<or> (Suc (Suc (?q + length ds)) = length ?x \<and> ?x ! Suc (?q + length ds) = newline)"
    using assms(3) nl len by auto
  show ?thesis
    unfolding index_in_def Let_def tw using tk assms(1) e nth c by simp
qed

lemma index_in_elim:
  assumes "index_in name x = Some k"
  shows "\<exists>ds t. ds \<noteq> [] \<and> list_all is_digit ds \<and> (t = [] \<or> t = [newline])
           \<and> x = name @ '' ('' @ ds @ '')'' @ t \<and> k = decimal ds"
proof -
  define q where "q = length (name @ '' ('')"
  define ds where "ds = takeWhile is_digit (drop q x)"
  define e where "e = q + length ds"
  from assms have tk: "take q x = name @ '' (''" and ne: "ds \<noteq> []" and el: "e < length x"
    and cl: "x ! e = CHR '')''"
    and en: "Suc e = length x \<or> (Suc (Suc e) = length x \<and> x ! Suc e = newline)"
    and k: "k = decimal ds"
    by (auto simp: index_in_def Let_def q_def ds_def e_def split: if_splits)
  have dg: "list_all is_digit ds"
    unfolding ds_def list_all_iff by (meson set_takeWhileD)
  have x1: "x = take q x @ drop q x" by simp
  have x2: "drop q x = ds @ drop (length ds) (drop q x)"
    unfolding ds_def by (metis takeWhile_eq_take append_take_drop_id)
  have x3: "drop (length ds) (drop q x) = drop e x" by (simp add: e_def add.commute)
  have x4: "drop e x = x ! e # drop (Suc e) x" using el by (simp add: Cons_nth_drop_Suc)
  have x5: "drop (Suc e) x = [] \<or> drop (Suc e) x = [newline]"
  proof (cases "Suc e = length x")
    case True then show ?thesis by simp
  next
    case False
    with en have l: "Suc (Suc e) = length x" and n: "x ! Suc e = newline" by simp_all
    from l have "Suc e < length x" by simp
    then have "drop (Suc e) x = x ! Suc e # drop (Suc (Suc e)) x"
      by (rule Cons_nth_drop_Suc[symmetric])
    moreover have "drop (Suc (Suc e)) x = []" using l by simp
    ultimately have "drop (Suc e) x = [newline]" using n by (simp only:)
    then show ?thesis by (rule disjI2)
  qed
  have "x = name @ '' ('' @ ds @ '')'' @ drop (Suc e) x"
    using x1 x2 x3 x4 cl tk by (metis append.assoc append_Cons append_Nil)
  with ne dg x5 k show ?thesis by blast
qed

lemma plain_tsne: "plain ''tsne-x''" "plain ''tsne-y''"
  by (simp_all add: plain_def regex_special_def)

lemma get_unique_names_tsne:
  "get_unique_names names [''tsne-x'', ''tsne-y''] =
     Ok (if ''tsne-x'' \<in> set names \<or> ''tsne-y'' \<in> set names
         then map (\<lambda>name. name @ '' (''
                     @ str_int (max (py_max (indices_of names ''tsne-x'') 1)
                                    (py_max (indices_of names ''tsne-y'') 1) + 1)
                     @ '')'') [''tsne-x'', ''tsne-y'']
         else [''tsne-x'', ''tsne-y''])"
  using get_unique_names_plain[of "[''tsne-x'', ''tsne-y'']" names] plain_tsne
  by (simp add: max.commute)

section \<open>Claims about the update loop\<close>



section \<open>Claims about the widget\<close>

text \<open>
  C3.  Whenever a step of the update loop yields, the yielded embedding is the attribute
  \<open>embedding_\<close> of a fit that the external t-SNE returned for the loop's data with
  \<open>n_components = 2\<close>, the widget's current \<open>perplexity\<close>, \<open>init = 'pca'\<close> and \<open>n_iter\<close>
  the number of iterations of this step, \<open>min(max_iter - iterations_done, step)\<close>, which
  is all that remains, \<open>max_iter - iterations_done\<close>, when the step size is \<open>max_iter\<close>
  as \<open>__start\<close> sets it.  \<open>__next_step\<close> stores exactly this value in
  \<open>self.embedding\<close>.
\<close>

theorem yielded_embedding_is_tsne_fit:
  assumes "update_loop_attr w = Some g" and "\<not> in_next_step w"
    and "update_loop_next tsne (perplexity w) g = (Yield e pr, g')"
  shows "\<exists>fit.
      tsne \<lparr>n_components = 2, perplexity_arg = perplexity w,
            n_iter = min (fmax_iter g - fiterations_done g) (fstep g), init = ''pca''\<rparr> (fX g)
        = Inr fit
    \<and> e = Some (embedding_attr fit)
    \<and> embedding (state_of (next_step tsne w)) = Some (embedding_attr fit)
    \<and> (fstep g = fmax_iter g \<and> 0 \<le> fiterations_done g \<longrightarrow>
         tsne \<lparr>n_components = 2, perplexity_arg = perplexity w,
               n_iter = fmax_iter g - fiterations_done g, init = ''pca''\<rparr> (fX g) = Inr fit)"
proof -
  let ?a = "\<lparr>n_components = 2, perplexity_arg = perplexity w,
            n_iter = min (fmax_iter g - fiterations_done g) (fstep g), init = ''pca''\<rparr>"
  from assms(3) obtain fit where f: "tsne ?a (fX g) = Inr fit" and e: "e = Some (embedding_attr fit)"
    by (auto simp: update_loop_next_def Let_def split: if_splits sum.splits)
  have s: "embedding (state_of (next_step tsne w)) = e"
    using assms by (simp add: next_step_def call_def Let_def)
  have "min (fmax_iter g - fiterations_done g) (fstep g) = fmax_iter g - fiterations_done g"
    if "fstep g = fmax_iter g" "0 \<le> fiterations_done g"
    using that by simp
  with f e s show ?thesis by auto
qed

theorem yielded_embedding_is_tsne_fit_witness:
  "update_loop_attr (state_of (start_private widget_example))
     = Some (update_loop None 1000 1000 None)
   \<and> \<not> in_next_step (state_of (start_private widget_example))
   \<and> update_loop_next tsne_example (perplexity (state_of (start_private widget_example)))
        (update_loop None 1000 1000 None)
       = (Yield (Some 1000) 1,
          (update_loop None 1000 1000 None)
            \<lparr>fiterations_done := 1000, fembedding := Some 1000, fdone := True\<rparr>)
   \<and> tsne_example \<lparr>n_components = 2, perplexity_arg = 30, n_iter = 1000, init = ''pca''\<rparr> None
       = Inr \<lparr>embedding_attr = 1000\<rparr>
   \<and> embedding (state_of (next_step tsne_example (state_of (start_private widget_example))))
       = Some 1000"
proof -
  let ?w = "state_of (start_private widget_example)"
  let ?g = "update_loop None 1000 1000 (None :: int option) :: (unit, int) frame"
  have a: "update_loop_attr ?w = Some ?g"
    by (simp add: start_private_def widget_example_eq Let_def py_index_def RefreshRate_def
        call_def set_update_loop_fields)
  have b: "\<not> in_next_step ?w"
    by (simp add: start_private_def widget_example_eq Let_def py_index_def RefreshRate_def
        call_def set_update_loop_fields)
  have p: "perplexity ?w = 30"
    by (simp add: start_private_def widget_example_eq Let_def py_index_def RefreshRate_def
        call_def set_update_loop_def)
  have c: "update_loop_next tsne_example (perplexity ?w) ?g
       = (Yield (Some 1000) 1, ?g\<lparr>fiterations_done := 1000, fembedding := Some 1000, fdone := True\<rparr>)"
    by (simp add: p update_loop_next_def update_loop_def tsne_example_def Let_def)
  from yielded_embedding_is_tsne_fit[OF a b c]
  have "embedding (state_of (next_step tsne_example ?w)) = Some 1000"
    by (auto simp: update_loop_def tsne_example_def)
  moreover have "tsne_example \<lparr>n_components = 2, perplexity_arg = 30, n_iter = 1000, init = ''pca''\<rparr> None
       = Inr \<lparr>embedding_attr = 1000\<rparr>"
    by (simp add: tsne_example_def)
  ultimately show ?thesis using a b c by simp
qed







text \<open>
  C6.  \<open>_initialize\<close> with an input table whose domain has attributes, when the external
  PCA with \<open>n_components = pca_components\<close> fits the table and the fitted model transforms
  the same table, returns with that result in \<open>effective_matrix\<close>.  With a table whose
  domain has no attributes it shows \<open>no_attributes\<close> and \<open>effective_matrix\<close> stays
  \<open>None\<close>.  Without input data it returns after clearing: the loop, the run state, the
  error messages, \<open>data\<close>, \<open>effective_matrix\<close> and \<open>embedding\<close> are reset, the context is
  closed and the attribute values are initialised, and nothing else happens.
\<close>

theorem initialize_delegates_pca:
  "(signal_data w = Some d \<and> domain_attributes d \<noteq> []
      \<and> PCA (pca_components w) d = Inr model \<and> model d = Inr m \<longrightarrow>
      (\<exists>w'. initialize PCA w = Return w' \<and> effective_matrix w' = Some m
          \<and> data w' = Some d \<and> \<not> err_no_attributes w'))
   \<and> (signal_data w = Some d \<and> domain_attributes d = [] \<longrightarrow>
      (\<exists>w'. initialize PCA w = Return w' \<and> err_no_attributes w'
          \<and> effective_matrix w' = None))
   \<and> (signal_data w = None \<longrightarrow>
        initialize PCA w =
          Return (w\<lparr>data := None, effective_matrix := None, embedding := None,
                    update_loop_attr := None, state := Waiting, timer_active := False,
                    blocking := False, status_message := [], runbutton_text := ''Start'',
                    err_not_enough_rows := False, err_no_attributes := False,
                    err_out_of_memory := False, err_optimization_error := None,
                    log := log w @ [CloseContext]
                           @ (if update_loop_attr w = None then []
                              else [GeneratorClose, ProgressBarFinished])
                           @ [InitAttrValues]\<rparr>))"
  by (auto simp: initialize_def clear_def set_update_loop_def Error_clear_def call_def Let_def
      split: option.splits)

theorem initialize_delegates_pca_witness:
  "signal_data (widget_example\<lparr>signal_data := Some table_example\<rparr>) = Some table_example
   \<and> domain_attributes table_example \<noteq> []
   \<and> pca_example 10 table_example = Inr (\<lambda>d'. Inr ())
   \<and> (\<exists>w'. initialize pca_example (widget_example\<lparr>signal_data := Some table_example\<rparr>) = Return w'
          \<and> effective_matrix w' = Some ())
   \<and> (\<exists>w'. initialize pca_example
              (widget_example\<lparr>signal_data := Some \<lparr>domain_attributes = [], content = ()\<rparr>\<rparr>)
            = Return w'
          \<and> err_no_attributes w' \<and> effective_matrix w' = None)
   \<and> signal_data widget_example = None
   \<and> state_of (initialize pca_example widget_example)
       = widget_example\<lparr>log := log widget_example @ [CloseContext, InitAttrValues]\<rparr>"
proof -
  let ?w1 = "widget_example\<lparr>signal_data := Some table_example\<rparr>"
  let ?t0 = "\<lparr>domain_attributes = [], content = ()\<rparr>"
  let ?w2 = "widget_example\<lparr>signal_data := Some ?t0\<rparr>"
  have h1: "signal_data ?w1 = Some table_example" "domain_attributes table_example \<noteq> []"
    "pca_example (pca_components ?w1) table_example = Inr (\<lambda>d'. Inr ())"
    "(\<lambda>d'. Inr ()) table_example = (Inr () :: exn + unit)"
    by (simp_all add: table_example_def pca_example_def)
  from initialize_delegates_pca[of ?w1 table_example pca_example "\<lambda>d'. Inr ()" "()"] h1
  have c1: "\<exists>w'. initialize pca_example ?w1 = Return w' \<and> effective_matrix w' = Some ()"
    by auto
  have h2: "signal_data ?w2 = Some ?t0" "domain_attributes ?t0 = []" by simp_all
  from initialize_delegates_pca[of ?w2 ?t0 pca_example] h2
  have c2: "\<exists>w'. initialize pca_example ?w2 = Return w'
          \<and> err_no_attributes w' \<and> effective_matrix w' = None"
    by auto
  have h3: "signal_data widget_example = None" by (simp add: widget_example_eq)
  from initialize_delegates_pca[of widget_example _ pca_example] h3
  have c3: "state_of (initialize pca_example widget_example)
       = widget_example\<lparr>log := log widget_example @ [CloseContext, InitAttrValues]\<rparr>"
    by (simp add: widget_example_eq)
  have p: "pca_example 10 table_example = Inr (\<lambda>d'. Inr ())" by (simp add: pca_example_def)
  from h1(1) h1(2) p c1 c2 h3 c3 show ?thesis by simp
qed

text \<open>
  C9.  In every state that the widget can reach through \<open>__init__\<close>,
  \<open>__set_update_loop\<close>, \<open>_clear\<close>, \<open>_initialize\<close>, \<open>start\<close>, \<open>stop\<close>, \<open>__start\<close>,
  \<open>_toggle_run\<close> and \<open>__next_step\<close>, with any change of the other attributes in between,
  a loop is installed exactly when the state is \<open>Running\<close>.  \<open>__set_update_loop\<close> with a
  loop leaves that loop installed, the state \<open>Running\<close>, the widget blocked and the run
  button reading \<open>Stop\<close>; with \<open>None\<close> it leaves no loop, the widget unblocked and the
  button reading \<open>Start\<close>.
\<close>

theorem loop_installed_iff_running:
  assumes "reachable PCA tsne w"
  shows "(update_loop_attr w \<noteq> None \<longleftrightarrow> state w = Running)
   \<and> update_loop_attr (set_update_loop (Some g) w0) = Some g
   \<and> state (set_update_loop (Some g) w0) = Running
   \<and> blocking (set_update_loop (Some g) w0)
   \<and> runbutton_text (set_update_loop (Some g) w0) = ''Stop''
   \<and> update_loop_attr (set_update_loop None w0) = None
   \<and> \<not> blocking (set_update_loop None w0)
   \<and> runbutton_text (set_update_loop None w0) = ''Start''"
  using reachable_inv[OF assms] by (simp add: loop_inv_def set_update_loop_fields)

theorem loop_installed_iff_running_witness:
  "reachable pca_example tsne_example (state_of (start_private widget_example))
   \<and> update_loop_attr (state_of (start_private widget_example)) \<noteq> None
   \<and> state (state_of (start_private widget_example)) = Running
   \<and> reachable pca_example tsne_example widget_example
   \<and> update_loop_attr widget_example = None
   \<and> state widget_example \<noteq> Running"
proof -
  let ?w = "state_of (start_private widget_example)"
  have r0: "reachable pca_example tsne_example widget_example"
    by (rule reachable_widget_example)
  have r1: "reachable pca_example tsne_example ?w"
    using r0 by (rule r_start_private)
  have s1: "state ?w = Running"
    by (simp add: start_private_def widget_example_eq Let_def py_index_def RefreshRate_def
        call_def set_update_loop_def)
  have s0: "update_loop_attr widget_example = None"
    by (simp add: widget_example_eq)
  from loop_installed_iff_running[OF r1, of "update_loop None 1 1 None" widget_example] s1
  have c1: "update_loop_attr ?w \<noteq> None" by simp
  from loop_installed_iff_running[OF r0, of "update_loop None 1 1 None" widget_example] s0
  have c0: "state widget_example \<noteq> Running" by simp
  from r0 r1 s0 s1 c0 c1 show ?thesis by simp
qed


section \<open>Claims about the plot\<close>

text \<open>
  C10.  \<open>OWMDSGraph.update_data\<close> calls \<open>update_data\<close> of the base class first; when that
  returns, the result is the base class's result with the axes \<open>left\<close> and \<open>bottom\<close>
  hidden and the aspect ratio locked to 1, and when it raises, the exception escapes.
  The constructor likewise delegates to the constructor of the base class and then hides
  both axes.
\<close>

theorem update_data_delegates:
  "(super_update_data attr_x attr_y reset_view g = Inr g1 \<longrightarrow>
      update_data super_update_data attr_x attr_y reset_view g =
        Inr (g1\<lparr>axis_shown := (axis_shown g1)(''left'' := False, ''bottom'' := False),
                 aspect_locked := Some 1\<rparr>))
   \<and> (super_update_data attr_x attr_y reset_view g = Inl e \<longrightarrow>
      update_data super_update_data attr_x attr_y reset_view g = Inl e)
   \<and> (super_init (scatter_widget, parent, name, view_box) = Inr g0 \<longrightarrow>
      OWMDSGraph_init super_init scatter_widget parent name view_box =
        Inr (g0\<lparr>axis_shown := (axis_shown g0)(''left'' := False, ''bottom'' := False)\<rparr>))
   \<and> (super_init (scatter_widget, parent, name, view_box) = Inl e0 \<longrightarrow>
      OWMDSGraph_init super_init scatter_widget parent name view_box = Inl e0)"
  by (simp add: update_data_def OWMDSGraph_init_def hideAxis_def setAspectLocked_def)

theorem update_data_delegates_witness:
  "(\<lambda>x y r g. Inr (g\<lparr>aspect_locked := None\<rparr>)) ''tsne-x'' ''tsne-y'' True graph_example
     = (Inr graph_example :: exn + unit graph)
   \<and> update_data (\<lambda>x y r g. Inr (g\<lparr>aspect_locked := None\<rparr>)) ''tsne-x'' ''tsne-y'' True
        graph_example
     = Inr \<lparr>axis_shown = (\<lambda>a. a \<noteq> ''left'' \<and> a \<noteq> ''bottom''), aspect_locked = Some 1,
            rest = ()\<rparr>
   \<and> update_data (\<lambda>x y r g. Inl (Exn OtherError ''no data'')) ''tsne-x'' ''tsne-y'' True
        graph_example
     = Inl (Exn OtherError ''no data'')
   \<and> OWMDSGraph_init (\<lambda>a. Inr graph_example) () () ''MDSGraph'' ()
     = Inr \<lparr>axis_shown = (\<lambda>a. a \<noteq> ''left'' \<and> a \<noteq> ''bottom''), aspect_locked = None,
            rest = ()\<rparr>
   \<and> OWMDSGraph_init (\<lambda>a. Inl (Exn OtherError ''no parent'')) () () ''MDSGraph'' ()
     = (Inl (Exn OtherError ''no parent'') :: exn + unit graph)"
proof -
  let ?sup = "\<lambda>(x::string) (y::string) (r::bool) (g::unit graph).
                 (Inr (g\<lparr>aspect_locked := None\<rparr>) :: exn + unit graph)"
  let ?bad = "\<lambda>(x::string) (y::string) (r::bool) (g::unit graph).
                 (Inl (Exn OtherError ''no data'') :: exn + unit graph)"
  let ?ini = "\<lambda>a::unit \<times> unit \<times> string \<times> unit. (Inr graph_example :: exn + unit graph)"
  let ?inb = "\<lambda>a::unit \<times> unit \<times> string \<times> unit.
                 (Inl (Exn OtherError ''no parent'') :: exn + unit graph)"
  have h1: "?sup ''tsne-x'' ''tsne-y'' True graph_example = Inr graph_example"
    by (simp add: graph_example_def)
  have f: "(\<lambda>a. True)(''left'' := False, ''bottom'' := False)
             = (\<lambda>a. a \<noteq> ''left'' \<and> a \<noteq> ''bottom'')"
    by (rule ext) simp
  from update_data_delegates[of ?sup "''tsne-x''" "''tsne-y''" True graph_example graph_example
      _ ?ini "()" "()" "''MDSGraph''" "()" graph_example] h1
  have c1: "update_data ?sup ''tsne-x'' ''tsne-y'' True graph_example
     = Inr \<lparr>axis_shown = (\<lambda>a. a \<noteq> ''left'' \<and> a \<noteq> ''bottom''), aspect_locked = Some 1,
            rest = ()\<rparr>"
    and c3: "OWMDSGraph_init ?ini () () ''MDSGraph'' ()
     = Inr \<lparr>axis_shown = (\<lambda>a. a \<noteq> ''left'' \<and> a \<noteq> ''bottom''), aspect_locked = None,
            rest = ()\<rparr>"
    by (simp_all add: graph_example_def f)
  from update_data_delegates[of ?bad "''tsne-x''" "''tsne-y''" True graph_example _
      "Exn OtherError ''no data''" ?inb "()" "()" "''MDSGraph''" "()" _
      "Exn OtherError ''no parent''"]
  have c2: "update_data ?bad ''tsne-x'' ''tsne-y'' True graph_example
     = Inl (Exn OtherError ''no data'')"
    and c4: "OWMDSGraph_init ?inb () () ''MDSGraph'' () = Inl (Exn OtherError ''no parent'')"
    by simp_all
  from h1 c1 c2 c3 c4 show ?thesis by simp
qed

text \<open>
  C8.  With the entry \<open>Stress\<close> selected for the size (size index \<open>-2\<close>),
  \<open>compute_sizes\<close> returns no sizes: it raises.  It looks up the global name \<open>stress\<close>,
  and in a namespace that binds every name of the module's top level, to whatever value,
  the lookup fails with \<open>NameError\<close> after the message \<open>missing_size\<close> has been cleared.
  (Were the message itself missing from the host's group, the first statement would raise
  before.)  This holds for every graph, every embedding and every behaviour of numpy and
  of the base class.
\<close>

theorem compute_sizes_stress_raises:
  "compute_sizes N has_missing_size (\<lambda>n. if n \<in> set module_names then Some f else None)
     super_get_size_index (g\<lparr>attr_size := AttrStr ''Stress''\<rparr>) missing_size
     master_embedding master_effective_matrix
   = (if has_missing_size
      then (None, Inl (Exn NameError (''name '' @ [CHR 0x27] @ ''stress'' @ [CHR 0x27]
                                        @ '' is not defined'')))
      else (missing_size,
            Inl (Exn AttributeError
                   (''Information object has no attribute '' @ [CHR 0x27] @ ''missing_size''
                      @ [CHR 0x27]))))"
  by (simp add: compute_sizes_def get_size_index_def load_global_def module_names_def)

section \<open>Claims about the helpers\<close>

text \<open>
  C7.  \<open>get_indices\<close> puts the name into the regular expression as it is, so a name is
  read as a pattern.  With the existing names \<open>a.c\<close> and \<open>abc (5)\<close>, the proposed name
  \<open>a.c\<close> is renamed to \<open>a.c (6)\<close>, although no existing name is \<open>a.c (k)\<close> for any \<open>k\<close>;
  with the name \<open>f(x\<close> the helper raises the error of \<open>re\<close> instead of renaming.  For
  names without special characters the helper returns what the lemma
  \<open>get_unique_names_plain\<close> states, as in the third example: the common index is one more
  than the largest index in use.
\<close>

theorem get_unique_names_reads_name_as_pattern:
  "get_unique_names [''a.c'', ''abc (5)''] [''a.c''] = Ok [''a.c (6)'']
   \<and> get_unique_names [''f(x''] [''f(x'']
       = Err (Exn ReError ''missing ), unterminated subpattern'')
   \<and> get_unique_names [''tsne-x'', ''tsne-x (3)'', ''tsne-y (12)''] [''tsne-x'', ''tsne-y'']
       = Ok [''tsne-x (13)'', ''tsne-y (13)'']"
  by code_simp


end
